theory Spec2Isabelle
  imports Main
begin

section \<open>Python values the cog works with\<close>

text \<open>
  The exceptions that can travel through \<^verbatim>\<open>MCServer.py\<close>. \<open>RCONFailedError\<close> is the
  module's own class and carries its message (\<^verbatim>\<open>error.args[0]\<close>); the others are
  built-in or library exceptions raised by the calls the cog makes.
  \<open>ConnectionRefusedError\<close> stands for the subclasses of \<open>ConnectionError\<close>.
\<close>

datatype exn =
    RCONFailedError string
  | ConnectionError
  | ConnectionRefusedError
  | gaierror
  | TimeoutError
  | ProcessLookupError
  | TypeError
  | AttributeError
  | OSError

text \<open>The classes that the module names in its \<^verbatim>\<open>except\<close> clauses.\<close>

datatype exn_class =
    ConnectionError_cls
  | gaierror_cls
  | TimeoutError_cls
  | ProcessLookupError_cls
  | RCONFailedError_cls

text \<open>
  \<^verbatim>\<open>isinstance(e, cls)\<close>: \<open>gaierror\<close> and \<open>TimeoutError\<close> derive from \<open>OSError\<close>,
  not from \<open>ConnectionError\<close>.
\<close>

fun isinstance :: "exn \<Rightarrow> exn_class \<Rightarrow> bool" where
  "isinstance e ConnectionError_cls = (e = ConnectionError \<or> e = ConnectionRefusedError)"
| "isinstance e gaierror_cls = (e = gaierror)"
| "isinstance e TimeoutError_cls = (e = TimeoutError)"
| "isinstance e ProcessLookupError_cls = (e = ProcessLookupError)"
| "isinstance e RCONFailedError_cls = (case e of RCONFailedError m \<Rightarrow> True | _ \<Rightarrow> False)"

text \<open>
  Python's \<^verbatim>\<open>a or b\<close> returns \<^verbatim>\<open>a\<close> when \<^verbatim>\<open>a\<close> is truthy. A class object is always
  truthy, so on classes the expression is its left operand.
\<close>

definition py_or :: "exn_class \<Rightarrow> exn_class \<Rightarrow> exn_class" where
  "py_or a b = a"

text \<open>\<^verbatim>\<open>sep.join(xs)\<close>.\<close>

fun str_join :: "string \<Rightarrow> string list \<Rightarrow> string" where
  "str_join sep [] = []"
| "str_join sep [x] = x"
| "str_join sep (x # y # ys) = x @ sep @ str_join sep (y # ys)"

text \<open>\<^verbatim>\<open>str(n)\<close> for an integer, as an f-string renders it.\<close>

definition digit_char :: "nat \<Rightarrow> char" where
  "digit_char d = char_of (48 + d)"

fun str_nat :: "nat \<Rightarrow> string" where
  "str_nat n = (if n < 10 then [digit_char n] else str_nat (n div 10) @ [digit_char (n mod 10)])"

declare str_nat.simps [simp del]

definition str_int :: "int \<Rightarrow> string" where
  "str_int i = (if i < 0 then CHR ''-'' # str_nat (nat (- i)) else str_nat (nat i))"

definition newline :: string where
  "newline = [CHR 0x0A]"

text \<open>The three backquotes that open and close a code block in a chat message.\<close>

definition fence :: string where
  "fence = [CHR 0x60, CHR 0x60, CHR 0x60]"

definition backquote :: string where
  "backquote = [CHR 0x60]"

section \<open>Configuration, library objects and the outside world\<close>

text \<open>
  The class constants of \<open>MCServerControl\<close>, read from the process environment when the
  module is loaded, together with the bot's command prefix. The ports are kept as the
  text an f-string renders for them.
\<close>

record config =
  SERVER_IP :: string
  PUBLIC_IP :: string
  SERVER_PORT :: string
  SERVER_RCON_PORT :: string
  SERVER_RCON_PASSWORD :: string
  SERVER_WORKING_DIRECTORY :: string
  SERVER_EXEC_COMMAND :: string
  SERVER_STOP_TIMEOUT :: int
  command_prefix :: string

text \<open>
  The formatting methods of the RCON library's client that matter here; the library's
  third one, which replaces codes by terminal colours, is never selected by the cog.
\<close>

datatype format_method = RAW | REMOVE

definition REMOVE_FORMATTER :: format_method where
  "REMOVE_FORMATTER = REMOVE"

text \<open>
  An \<open>RCONClient\<close> object: where it points, its formatting method, and whether it holds
  an open TCP connection.
\<close>

record rcon_client =
  rc_host :: string
  rc_port :: string
  rc_format :: format_method
  rc_connected :: bool

text \<open>A handle of a spawned child process.\<close>

type_synonym proc = nat

text \<open>What the status and query protocols return, as far as the cog reads it.\<close>

record status_response =
  version_name :: string
  latency_text :: string
  status_online :: int
  status_max :: int

record query_response =
  query_online :: int
  query_max :: int
  query_names :: "string list"

datatype colour = Green | Red

record embed =
  embed_title :: string
  embed_description :: string
  embed_colour :: "colour option"
  embed_fields :: "(string \<times> string \<times> bool) list"
  embed_thumbnail :: "string option"

text \<open>
  Everything a command handler does to the outside world, in the order it does it.
  \<open>Kill\<close> is the call of \<^verbatim>\<open>kill()\<close> on the handle, whatever the call then does.
\<close>

datatype event =
    Send string
  | SendEmbed embed
  | Spawn string string
  | RconLogin string string string
  | RconCommand string
  | RconStop
  | Sleep int
  | Kill proc
  | StatusRequest string
  | QueryRequest string

text \<open>
  How the outside world answers the calls of one handler invocation: the operating
  system to the spawn and to the kill, the game server to the RCON login and command and
  to the status and query requests. \<open>Inl\<close> is the exception the call raises.
  \<open>kill_raises = None\<close> means that \<^verbatim>\<open>kill()\<close> delivers its signal and returns
  \<^verbatim>\<open>None\<close>; asyncio raises \<open>ProcessLookupError\<close> there when the process has
  already exited.
\<close>

record world =
  spawn_result :: "exn + proc"
  login_result :: "exn + bool"
  command_result :: "exn + string"
  kill_raises :: "exn option"
  status_result :: "exn + status_response"
  query_result :: "exn + query_response"

text \<open>
  The instance attributes of the cog (\<^verbatim>\<open>self.rcon\<close>, \<^verbatim>\<open>self.query\<close>,
  \<^verbatim>\<open>self.server_proc\<close>) and the log of effects so far.
\<close>

record cog =
  rcon :: "rcon_client option"
  query :: string
  server_proc :: "proc option"
  effects :: "event list"

text \<open>\<^verbatim>\<open>__init__\<close>.\<close>

definition init :: "config \<Rightarrow> cog" where
  "init cfg = \<lparr>rcon = None, query = SERVER_IP cfg @ '':'' @ SERVER_PORT cfg,
     server_proc = None, effects = []\<rparr>"

section \<open>Statements that may raise\<close>

text \<open>
  A statement takes the cog and returns its value or the exception it raises, together
  with the cog as the statement leaves it: an assignment made before a raise stays made.
\<close>

type_synonym 'a stmt = "cog \<Rightarrow> (exn + 'a) \<times> cog"

definition returnE :: "'a \<Rightarrow> 'a stmt" where
  "returnE a s = (Inr a, s)"

definition raiseE :: "exn \<Rightarrow> 'a stmt" where
  "raiseE e s = (Inl e, s)"

definition bindE :: "'a stmt \<Rightarrow> ('a \<Rightarrow> 'b stmt) \<Rightarrow> 'b stmt" where
  "bindE m f s = (case m s of (Inl e, s') \<Rightarrow> (Inl e, s') | (Inr a, s') \<Rightarrow> f a s')"

text \<open>\<^verbatim>\<open>try: m  except ...: h\<close>, where \<open>h\<close> re-raises what its clause does not match.\<close>

definition tryE :: "'a stmt \<Rightarrow> (exn \<Rightarrow> 'a stmt) \<Rightarrow> 'a stmt" where
  "tryE m h s = (case m s of (Inl e, s') \<Rightarrow> h e s' | (Inr a, s') \<Rightarrow> (Inr a, s'))"

definition emit :: "event \<Rightarrow> unit stmt" where
  "emit ev s = (Inr (), s\<lparr>effects := effects s @ [ev]\<rparr>)"

text \<open>\<^verbatim>\<open>await ctx.send(...)\<close>; delivery of a chat message is taken to succeed.\<close>

definition ctx_send :: "string \<Rightarrow> unit stmt" where
  "ctx_send m = emit (Send m)"

definition ctx_send_embed :: "embed \<Rightarrow> unit stmt" where
  "ctx_send_embed e = emit (SendEmbed e)"

definition asyncio_sleep :: "int \<Rightarrow> unit stmt" where
  "asyncio_sleep t = emit (Sleep t)"

text \<open>
  \<^verbatim>\<open>await x\<close> where \<^verbatim>\<open>x\<close> is \<^verbatim>\<open>None\<close>: \<^verbatim>\<open>None\<close> is not awaitable, and Python raises
  \<open>TypeError\<close>.
\<close>

definition await_None :: "unit \<Rightarrow> unit stmt" where
  "await_None x = raiseE TypeError"

section \<open>The library calls\<close>

text \<open>
  Modelled from the spec: the RCON library's \<open>REMOVE\<close> formatter, which is not part of
  the sources. The spec has the session strip "any embedded text-formatting control
  sequences" from the response. A control sequence is the section sign followed by one
  code character; a section sign that ends the text has no code character and is kept.
\<close>

definition section_sign :: char where
  "section_sign = CHR 0xA7"

fun remove_codes :: "string \<Rightarrow> string" where
  "remove_codes [] = []"
| "remove_codes [c] = [c]"
| "remove_codes (c # d # cs) =
     (if c = section_sign then remove_codes cs else c # remove_codes (d # cs))"

definition format_text :: "format_method \<Rightarrow> string \<Rightarrow> string" where
  "format_text fm raw = (case fm of RAW \<Rightarrow> raw | REMOVE \<Rightarrow> remove_codes raw)"

text \<open>\<^verbatim>\<open>RCONClient(host, port=..., format_method=...)\<close>: the object, not yet connected.\<close>

definition RCONClient :: "string \<Rightarrow> string \<Rightarrow> format_method \<Rightarrow> rcon_client" where
  "RCONClient host port fm =
     \<lparr>rc_host = host, rc_port = port, rc_format = fm, rc_connected = False\<rparr>"

text \<open>
  \<^verbatim>\<open>self.rcon.login(password)\<close>: the client connects and sends the login packet. When
  the server answers, the connection is open and the result says whether the password
  was accepted.
\<close>

definition rcon_login :: "world \<Rightarrow> string \<Rightarrow> bool stmt" where
  "rcon_login w password s =
     (case rcon s of
        None \<Rightarrow> (Inl AttributeError, s)
      | Some c \<Rightarrow>
          (let s1 = s\<lparr>effects := effects s @ [RconLogin (rc_host c) (rc_port c) password]\<rparr>
           in case login_result w of
                Inl e \<Rightarrow> (Inl e, s1)
              | Inr success \<Rightarrow> (Inr success, s1\<lparr>rcon := Some (c\<lparr>rc_connected := True\<rparr>)\<rparr>)))"

text \<open>\<^verbatim>\<open>self.rcon.command(command)\<close>: the response, formatted by the client's method.\<close>

definition rcon_command :: "world \<Rightarrow> string \<Rightarrow> string stmt" where
  "rcon_command w command s =
     (case rcon s of
        None \<Rightarrow> (Inl AttributeError, s)
      | Some c \<Rightarrow>
          (let s1 = s\<lparr>effects := effects s @ [RconCommand command]\<rparr>
           in case command_result w of
                Inl e \<Rightarrow> (Inl e, s1)
              | Inr raw \<Rightarrow> (Inr (format_text (rc_format c) raw), s1)))"

text \<open>\<^verbatim>\<open>self.rcon.stop()\<close>: closes the client's connection.\<close>

definition rcon_stop :: "unit stmt" where
  "rcon_stop s =
     (case rcon s of
        None \<Rightarrow> (Inl AttributeError, s)
      | Some c \<Rightarrow>
          (Inr (), s\<lparr>rcon := Some (c\<lparr>rc_connected := False\<rparr>),
                      effects := effects s @ [RconStop]\<rparr>))"

text \<open>\<^verbatim>\<open>asyncio.create_subprocess_shell(cmd, stdout=PIPE, cwd=dir)\<close>.\<close>

definition create_subprocess_shell :: "world \<Rightarrow> string \<Rightarrow> string \<Rightarrow> proc stmt" where
  "create_subprocess_shell w cmd cwd s =
     (let s1 = s\<lparr>effects := effects s @ [Spawn cmd cwd]\<rparr>
      in case spawn_result w of Inl e \<Rightarrow> (Inl e, s1) | Inr p \<Rightarrow> (Inr p, s1))"

text \<open>
  \<^verbatim>\<open>self.server_proc.kill()\<close>: an ordinary method of asyncio's process object, not a
  coroutine. It returns \<^verbatim>\<open>None\<close> or raises.
\<close>

definition proc_kill :: "world \<Rightarrow> unit stmt" where
  "proc_kill w s =
     (case server_proc s of
        None \<Rightarrow> (Inl AttributeError, s)
      | Some p \<Rightarrow>
          (let s1 = s\<lparr>effects := effects s @ [Kill p]\<rparr>
           in case kill_raises w of Some e \<Rightarrow> (Inl e, s1) | None \<Rightarrow> (Inr (), s1)))"

text \<open>\<^verbatim>\<open>self.query.async_status()\<close> and \<^verbatim>\<open>self.query.async_query()\<close>.\<close>

definition async_status :: "world \<Rightarrow> status_response stmt" where
  "async_status w s =
     (let s1 = s\<lparr>effects := effects s @ [StatusRequest (query s)]\<rparr>
      in case status_result w of Inl e \<Rightarrow> (Inl e, s1) | Inr r \<Rightarrow> (Inr r, s1))"

definition async_query :: "world \<Rightarrow> query_response stmt" where
  "async_query w s =
     (let s1 = s\<lparr>effects := effects s @ [QueryRequest (query s)]\<rparr>
      in case query_result w of Inl e \<Rightarrow> (Inl e, s1) | Inr r \<Rightarrow> (Inr r, s1))"

section \<open>The cog's methods\<close>

definition set_rcon :: "rcon_client option \<Rightarrow> unit stmt" where
  "set_rcon c s = (Inr (), s\<lparr>rcon := c\<rparr>)"

definition set_server_proc :: "proc option \<Rightarrow> unit stmt" where
  "set_server_proc p s = (Inr (), s\<lparr>server_proc := p\<rparr>)"

text \<open>
  \<^verbatim>\<open>_init_rcon\<close>. The clause \<^verbatim>\<open>except ConnectionError or gaierror\<close> names the class
  that the expression \<^verbatim>\<open>ConnectionError or gaierror\<close> evaluates to.
\<close>

definition init_rcon :: "config \<Rightarrow> world \<Rightarrow> unit stmt" where
  "init_rcon cfg w =
     tryE
       (bindE (set_rcon (Some (RCONClient (SERVER_IP cfg) (SERVER_RCON_PORT cfg) REMOVE_FORMATTER)))
          (\<lambda>_. bindE (rcon_login w (SERVER_RCON_PASSWORD cfg))
          (\<lambda>success. if \<not> success then raiseE (RCONFailedError ''Invalid Authentication'')
                      else returnE ())))
       (\<lambda>e. if isinstance e (py_or ConnectionError_cls gaierror_cls)
            then raiseE (RCONFailedError ''Server refused rcon, is rcon enabled?'')
            else raiseE e)"

text \<open>\<^verbatim>\<open>_stop_rcon\<close>.\<close>

definition stop_rcon :: "unit stmt" where
  "stop_rcon = bindE rcon_stop (\<lambda>_. set_rcon None)"

text \<open>\<^verbatim>\<open>_online\<close>.\<close>

definition online :: "cog \<Rightarrow> bool" where
  "online s = (server_proc s \<noteq> None)"

text \<open>\<^verbatim>\<open>_execute_mc_command\<close>.\<close>

definition execute_mc_command :: "config \<Rightarrow> world \<Rightarrow> string \<Rightarrow> string stmt" where
  "execute_mc_command cfg w command =
     bindE (init_rcon cfg w)
       (\<lambda>_. bindE (rcon_command w command)
       (\<lambda>response. bindE stop_rcon
       (\<lambda>_. returnE response)))"

text \<open>\<^verbatim>\<open>_start\<close> (mc-start).\<close>

definition start :: "config \<Rightarrow> world \<Rightarrow> unit stmt" where
  "start cfg w s =
     (if online s = False then
        bindE (create_subprocess_shell w (SERVER_EXEC_COMMAND cfg) (SERVER_WORKING_DIRECTORY cfg))
          (\<lambda>p. bindE (set_server_proc (Some p))
          (\<lambda>_. ctx_send ''Server starting up...'')) s
      else ctx_send ''Server already started!'' s)"

text \<open>\<^verbatim>\<open>_stop\<close> (mc-stop).\<close>

definition stop :: "config \<Rightarrow> world \<Rightarrow> unit stmt" where
  "stop cfg w s =
     (if online s then
        bindE (ctx_send ''Stopping server...'')
          (\<lambda>_. bindE (execute_mc_command cfg w ''stop'')
          (\<lambda>_. bindE (asyncio_sleep (SERVER_STOP_TIMEOUT cfg))
          (\<lambda>_. bindE
                 (tryE
                    (bindE (proc_kill w)
                       (\<lambda>r. bindE (await_None r)
                       (\<lambda>_. ctx_send ''Server took too long to stop, force killing...'')))
                    (\<lambda>e. if isinstance e ProcessLookupError_cls then returnE () else raiseE e))
          (\<lambda>_. bindE (ctx_send ''Server stopped'')
          (\<lambda>_. set_server_proc None))))) s
      else ctx_send ''Server is not online'' s)"

text \<open>\<^verbatim>\<open>_info\<close> (mc-info).\<close>

definition add_field :: "string \<Rightarrow> string \<Rightarrow> bool \<Rightarrow> embed \<Rightarrow> embed" where
  "add_field name val inline e = e\<lparr>embed_fields := embed_fields e @ [(name, val, inline)]\<rparr>"

definition Embed :: embed where
  "Embed = \<lparr>embed_title = [], embed_description = [], embed_colour = None,
     embed_fields = [], embed_thumbnail = None\<rparr>"

definition info :: "config \<Rightarrow> world \<Rightarrow> unit stmt" where
  "info cfg w =
     (let embed0 = add_field ''Address'' (PUBLIC_IP cfg @ '':'' @ SERVER_PORT cfg) False
                     (Embed\<lparr>embed_title := ''Server Status''\<rparr>)
      in bindE
           (tryE
              (bindE (async_status w)
                 (\<lambda>stats. returnE
                    ((add_field ''Players''
                        (str_int (status_online stats) @ '' out of '' @ str_int (status_max stats)) False
                     (add_field ''Ping'' (latency_text stats @ '' ms'') False
                     (add_field ''Version'' (version_name stats) False
                        (embed0\<lparr>embed_description := ''Server is online'',
                                 embed_colour := Some Green\<rparr>))))
                     \<lparr>embed_thumbnail := Some (''https://eu.mc-api.net/v3/server/favicon/''
                          @ PUBLIC_IP cfg @ '':'' @ SERVER_PORT cfg)\<rparr>)))
              (\<lambda>e. if isinstance e (py_or ConnectionError_cls gaierror_cls)
                   then returnE (embed0\<lparr>embed_description := ''Server is offline, run ''
                            @ backquote @ command_prefix cfg @ ''mc-start'' @ backquote
                            @ '' to start it'',
                          embed_colour := Some Red\<rparr>)
                   else raiseE e))
           (\<lambda>embed. ctx_send_embed embed))"

text \<open>\<^verbatim>\<open>_players\<close> (mc-players).\<close>

definition players :: "config \<Rightarrow> world \<Rightarrow> unit stmt" where
  "players cfg w s =
     (if online s then
        tryE
          (bindE (async_query w)
             (\<lambda>q. let names = str_join newline (query_names q)
                  in if length names > 0
                     then ctx_send (str_int (query_online q) @ '' out of '' @ str_int (query_max q)
                            @ '' online,'' @ newline @ fence @ newline @ names @ newline @ fence)
                     else ctx_send ''No players online''))
          (\<lambda>e. if isinstance e (py_or (py_or ConnectionError_cls TimeoutError_cls) gaierror_cls)
               then ctx_send ''Server refused query, is query enabled?''
               else raiseE e) s
      else ctx_send ''Server is not online'' s)"

text \<open>\<^verbatim>\<open>_join\<close> (mc-join).\<close>

definition join :: "config \<Rightarrow> unit stmt" where
  "join cfg =
     ctx_send (''The server can be joined by typing '' @ backquote @ PUBLIC_IP cfg @ '':''
       @ SERVER_PORT cfg @ backquote @ '' as the server address'')"

text \<open>\<^verbatim>\<open>_exec\<close> (mc-exec); \<open>command\<close> is the tuple of the words after the command name.\<close>

definition exec :: "config \<Rightarrow> world \<Rightarrow> string list \<Rightarrow> unit stmt" where
  "exec cfg w command s =
     (if online s then
        (let to_exec = str_join '' '' command
         in tryE
              (bindE (execute_mc_command cfg w to_exec)
                 (\<lambda>response. if response \<noteq> []
                    then ctx_send (''Server responded with the following:'' @ newline @ fence
                           @ newline @ response @ newline @ fence)
                    else returnE ()))
              (\<lambda>e. case e of RCONFailedError msg \<Rightarrow> ctx_send msg | _ \<Rightarrow> raiseE e)) s
      else ctx_send ''Server is not online'' s)"

section \<open>Sample inputs\<close>

text \<open>The defaults the module gives to \<^verbatim>\<open>os.getenv\<close>, and \<open>!\<close> as the bot's prefix.\<close>

definition default_config :: config where
  "default_config = \<lparr>SERVER_IP = ''127.0.0.1'', PUBLIC_IP = ''private'', SERVER_PORT = ''25565'',
     SERVER_RCON_PORT = ''25575'', SERVER_RCON_PASSWORD = [], SERVER_WORKING_DIRECTORY = ''./'',
     SERVER_EXEC_COMMAND = ''./start.sh'', SERVER_STOP_TIMEOUT = 5, command_prefix = ''!''\<rparr>"

text \<open>
  A world in which everything answers: the spawn gives process 1, the RCON server accepts
  the password and answers the command, the game server runs with nobody on it, and the
  process has exited by the time it is killed.
\<close>

definition empty_server :: world where
  "empty_server = \<lparr>spawn_result = Inr 1, login_result = Inr True, command_result = Inr [],
     kill_raises = Some ProcessLookupError,
     status_result = Inr \<lparr>version_name = ''1.16.5'', latency_text = ''1.5'',
                         status_online = 0, status_max = 20\<rparr>,
     query_result = Inr \<lparr>query_online = 0, query_max = 20, query_names = []\<rparr>\<rparr>"

text \<open>The cog after construction, and the cog holding the handle of process 1.\<close>

definition absent :: cog where
  "absent = init default_config"

definition held :: cog where
  "held = (init default_config)\<lparr>server_proc := Some 1\<rparr>"

section \<open>Notions the properties are stated with\<close>

text \<open>
  A text contains a formatting control sequence when a section sign in it is followed by
  a character.
\<close>

fun has_code :: "string \<Rightarrow> bool" where
  "has_code [] = False"
| "has_code [c] = False"
| "has_code (c # d # cs) = (c = section_sign \<or> has_code (d # cs))"

text \<open>A run of start and stop calls, each with the world's answers to it.\<close>

datatype call = Start | Stop

fun run :: "config \<Rightarrow> (call \<times> world) list \<Rightarrow> cog \<Rightarrow> cog" where
  "run cfg [] s = s"
| "run cfg ((Start, w) # cs) s = run cfg cs (snd (start cfg w s))"
| "run cfg ((Stop, w) # cs) s = run cfg cs (snd (stop cfg w s))"

section \<open>How the statements compose\<close>

lemmas stmt_defs = returnE_def raiseE_def bindE_def tryE_def emit_def ctx_send_def
  ctx_send_embed_def asyncio_sleep_def await_None_def set_rcon_def set_server_proc_def

lemmas lib_defs = rcon_login_def rcon_command_def rcon_stop_def create_subprocess_shell_def
  proc_kill_def async_status_def async_query_def

lemma init_rcon_eq:
  "init_rcon cfg w s =
     (let c = RCONClient (SERVER_IP cfg) (SERVER_RCON_PORT cfg) REMOVE;
          s1 = s\<lparr>rcon := Some c,
                 effects := effects s @ [RconLogin (SERVER_IP cfg) (SERVER_RCON_PORT cfg) (SERVER_RCON_PASSWORD cfg)]\<rparr>
      in case login_result w of
           Inl e \<Rightarrow> (Inl (if e = ConnectionError \<or> e = ConnectionRefusedError
                          then RCONFailedError ''Server refused rcon, is rcon enabled?'' else e), s1)
         | Inr success \<Rightarrow>
             (if success then Inr () else Inl (RCONFailedError ''Invalid Authentication''),
              s1\<lparr>rcon := Some (c\<lparr>rc_connected := True\<rparr>)\<rparr>))"
  by (simp add: init_rcon_def stmt_defs rcon_login_def RCONClient_def REMOVE_FORMATTER_def py_or_def
      Let_def split: sum.splits)

lemma init_rcon_server_proc: "server_proc (snd (init_rcon cfg w s)) = server_proc s"
  by (simp add: init_rcon_eq Let_def split: sum.splits)

lemma rcon_command_server_proc: "server_proc (snd (rcon_command w c s)) = server_proc s"
  by (simp add: rcon_command_def Let_def split: sum.splits option.splits)

lemma stop_rcon_server_proc: "server_proc (snd (stop_rcon s)) = server_proc s"
  by (simp add: stop_rcon_def rcon_stop_def stmt_defs split: sum.splits option.splits)

lemma bindE_server_proc:
  assumes "\<And>s. server_proc (snd (m s)) = server_proc s"
    and "\<And>a s. server_proc (snd (f a s)) = server_proc s"
  shows "server_proc (snd (bindE m f s)) = server_proc s"
proof (cases "m s")
  case (Pair r s')
  then have "server_proc s' = server_proc s" using assms(1) [of s] by simp
  then show ?thesis using Pair assms(2) by (cases r) (simp_all add: bindE_def)
qed

lemma tryE_server_proc:
  assumes "\<And>s. server_proc (snd (m s)) = server_proc s"
    and "\<And>e s. server_proc (snd (h e s)) = server_proc s"
  shows "server_proc (snd (tryE m h s)) = server_proc s"
proof (cases "m s")
  case (Pair r s')
  then have "server_proc s' = server_proc s" using assms(1) [of s] by simp
  then show ?thesis using Pair assms(2) by (cases r) (simp_all add: tryE_def)
qed

lemma emit_server_proc: "server_proc (snd (emit ev s)) = server_proc s"
  by (simp add: emit_def)

lemma returnE_server_proc: "server_proc (snd (returnE a s)) = server_proc s"
  by (simp add: returnE_def)

lemma raiseE_server_proc: "server_proc (snd (raiseE e s)) = server_proc s"
  by (simp add: raiseE_def)

lemma execute_mc_command_server_proc:
  "server_proc (snd (execute_mc_command cfg w c s)) = server_proc s"
  unfolding execute_mc_command_def
  by (intro bindE_server_proc init_rcon_server_proc rcon_command_server_proc
      stop_rcon_server_proc returnE_server_proc)

lemma info_server_proc: "server_proc (snd (info cfg w s)) = server_proc s"
proof -
  have st: "\<And>s. server_proc (snd (async_status w s)) = server_proc s"
    by (simp add: async_status_def Let_def split: sum.splits)
  show ?thesis
    unfolding info_def Let_def ctx_send_embed_def
    by (intro bindE_server_proc tryE_server_proc st returnE_server_proc emit_server_proc)
       (simp_all add: returnE_def raiseE_def)
qed

lemma players_server_proc: "server_proc (snd (players cfg w s)) = server_proc s"
proof -
  have q: "\<And>s. server_proc (snd (async_query w s)) = server_proc s"
    by (simp add: async_query_def Let_def split: sum.splits)
  have body: "\<And>s. server_proc (snd (tryE
          (bindE (async_query w)
             (\<lambda>q. let names = str_join newline (query_names q)
                  in if length names > 0
                     then ctx_send (str_int (query_online q) @ '' out of '' @ str_int (query_max q)
                            @ '' online,'' @ newline @ fence @ newline @ names @ newline @ fence)
                     else ctx_send ''No players online''))
          (\<lambda>e. if isinstance e (py_or (py_or ConnectionError_cls TimeoutError_cls) gaierror_cls)
               then ctx_send ''Server refused query, is query enabled?''
               else raiseE e) s)) = server_proc s"
    by (intro bindE_server_proc tryE_server_proc q)
       (simp_all add: ctx_send_def emit_def raiseE_def Let_def)
  show ?thesis
    unfolding players_def using body by (simp add: ctx_send_def emit_def)
qed

lemma exec_server_proc: "server_proc (snd (exec cfg w c s)) = server_proc s"
proof -
  have body: "\<And>x s. server_proc (snd (tryE
              (bindE (execute_mc_command cfg w x)
                 (\<lambda>response. if response \<noteq> []
                    then ctx_send (''Server responded with the following:'' @ newline @ fence
                           @ newline @ response @ newline @ fence)
                    else returnE ()))
              (\<lambda>e. case e of RCONFailedError msg \<Rightarrow> ctx_send msg | _ \<Rightarrow> raiseE e) s)) = server_proc s"
    by (intro bindE_server_proc tryE_server_proc execute_mc_command_server_proc)
       (simp_all add: ctx_send_def emit_def raiseE_def returnE_def split: exn.splits)
  show ?thesis
    unfolding exec_def Let_def using body by (simp add: ctx_send_def emit_def)
qed

section \<open>Frame: who writes the process handle\<close>

text \<open>
  C10. The handlers for status (\<^verbatim>\<open>_info\<close>), player list (\<^verbatim>\<open>_players\<close>), join address
  (\<^verbatim>\<open>_join\<close>) and command execution (\<^verbatim>\<open>_exec\<close>, and \<^verbatim>\<open>_execute_mc_command\<close> under
  it) leave \<^verbatim>\<open>self.server_proc\<close> as they found it, whatever the world answers and
  whether they return or raise.
\<close>

theorem handle_frame:
  "server_proc (snd (info cfg w s)) = server_proc s
   \<and> server_proc (snd (players cfg w s)) = server_proc s
   \<and> server_proc (snd (join cfg s)) = server_proc s
   \<and> server_proc (snd (exec cfg w command s)) = server_proc s
   \<and> server_proc (snd (execute_mc_command cfg w c s)) = server_proc s"
  by (simp add: info_server_proc players_server_proc exec_server_proc
      execute_mc_command_server_proc join_def ctx_send_def emit_def)

section \<open>One RCON command\<close>

lemmas cog_defs = init_rcon_def stop_rcon_def online_def execute_mc_command_def start_def stop_def
  info_def players_def join_def exec_def py_or_def RCONClient_def REMOVE_FORMATTER_def
  format_text_def Embed_def add_field_def init_def

lemmas sample_defs = default_config_def empty_server_def absent_def held_def

text \<open>
  \<^verbatim>\<open>_execute_mc_command\<close> by cases of what the login and the command do. Only the last
  case reaches \<^verbatim>\<open>_stop_rcon\<close>.
\<close>

lemma execute_mc_command_eq:
  "execute_mc_command cfg w command s =
     (case init_rcon cfg w s of
        (Inl e, s1) \<Rightarrow> (Inl e, s1)
      | (Inr u, s1) \<Rightarrow>
          (case command_result w of
             Inl e \<Rightarrow> (Inl e, s1\<lparr>effects := effects s1 @ [RconCommand command]\<rparr>)
           | Inr raw \<Rightarrow>
               (Inr (remove_codes raw),
                s1\<lparr>rcon := None, effects := effects s1 @ [RconCommand command, RconStop]\<rparr>)))"
  by (simp add: execute_mc_command_def bindE_def returnE_def set_rcon_def stop_rcon_def
      rcon_command_def rcon_stop_def format_text_def init_rcon_eq Let_def RCONClient_def
      split: sum.splits)

text \<open>
  C3. The claim: executing a command fails with the authentication error exactly when
  the login is rejected, and with the unavailable error for DNS and connection failures,
  and a rejected login sends no command. The module has one class, \<open>RCONFailedError\<close>,
  with one message for a rejected login and one for a refused connection. A rejected
  login and a refused connection behave as claimed. A failed name resolution does not:
  the clause \<^verbatim>\<open>except ConnectionError or gaierror\<close> catches \<open>ConnectionError\<close> only,
  and \<open>gaierror\<close> leaves \<^verbatim>\<open>_execute_mc_command\<close> as it is, not as an
  \<open>RCONFailedError\<close>.
\<close>

theorem execute_mc_command_dns_failure_escapes:
  "execute_mc_command default_config (empty_server\<lparr>login_result := Inl gaierror\<rparr>) ''say hi'' held
     = (Inl gaierror,
        held\<lparr>rcon := Some (RCONClient ''127.0.0.1'' ''25575'' REMOVE),
             effects := [RconLogin ''127.0.0.1'' ''25575'' []]\<rparr>)
   \<and> \<not> isinstance gaierror RCONFailedError_cls"
  by (simp add: cog_defs sample_defs stmt_defs lib_defs)

text \<open>What does hold of the failures of one command, for every configuration and world.\<close>

lemma execute_mc_command_login_rejected:
  "login_result w = Inr False \<Longrightarrow>
   execute_mc_command cfg w command s
     = (Inl (RCONFailedError ''Invalid Authentication''),
        s\<lparr>rcon := Some ((RCONClient (SERVER_IP cfg) (SERVER_RCON_PORT cfg) REMOVE)\<lparr>rc_connected := True\<rparr>),
           effects := effects s @ [RconLogin (SERVER_IP cfg) (SERVER_RCON_PORT cfg) (SERVER_RCON_PASSWORD cfg)]\<rparr>)"
  by (simp add: execute_mc_command_eq init_rcon_eq Let_def)

lemma execute_mc_command_connection_refused:
  "login_result w = Inl e \<Longrightarrow> isinstance e ConnectionError_cls \<Longrightarrow>
   fst (execute_mc_command cfg w command s)
     = Inl (RCONFailedError ''Server refused rcon, is rcon enabled?'')"
  by (auto simp: execute_mc_command_eq init_rcon_eq Let_def)

lemma execute_mc_command_auth_error_iff:
  "fst (execute_mc_command cfg w command s) = Inl (RCONFailedError ''Invalid Authentication'')
   \<longleftrightarrow> login_result w = Inr False \<or> login_result w = Inl (RCONFailedError ''Invalid Authentication'')
       \<or> (login_result w = Inr True
           \<and> command_result w = Inl (RCONFailedError ''Invalid Authentication''))"
  by (auto simp: execute_mc_command_eq init_rcon_eq Let_def split: sum.splits if_splits)

text \<open>
  C4. The claim: on every path of one command execution, the exception paths included,
  the connection opened for the command is closed before the call returns or the failure
  propagates. \<^verbatim>\<open>_stop_rcon\<close> is the last statement but one of \<^verbatim>\<open>_execute_mc_command\<close>
  and stands in no \<^verbatim>\<open>finally\<close>: when the login is rejected, and when the command
  raises after an accepted login, the exception leaves the method with the client still
  connected, still stored in \<^verbatim>\<open>self.rcon\<close>, and with no call of its \<^verbatim>\<open>stop()\<close>.
\<close>

theorem execute_mc_command_leaves_connection_open:
  "execute_mc_command default_config (empty_server\<lparr>login_result := Inr False\<rparr>) ''say hi'' held
     = (Inl (RCONFailedError ''Invalid Authentication''),
        held\<lparr>rcon := Some ((RCONClient ''127.0.0.1'' ''25575'' REMOVE)\<lparr>rc_connected := True\<rparr>),
             effects := [RconLogin ''127.0.0.1'' ''25575'' []]\<rparr>)
   \<and> execute_mc_command default_config (empty_server\<lparr>command_result := Inl ConnectionError\<rparr>)
         ''say hi'' held
     = (Inl ConnectionError,
        held\<lparr>rcon := Some ((RCONClient ''127.0.0.1'' ''25575'' REMOVE)\<lparr>rc_connected := True\<rparr>),
             effects := [RconLogin ''127.0.0.1'' ''25575'' [], RconCommand ''say hi'']\<rparr>)"
  by (simp add: cog_defs sample_defs stmt_defs lib_defs)

text \<open>The path that returns does close the connection and clears \<^verbatim>\<open>self.rcon\<close>.\<close>

lemma execute_mc_command_returns_closed:
  "execute_mc_command cfg w command s = (Inr response, s') \<Longrightarrow>
   rcon s' = None \<and> last (effects s') = RconStop"
  by (auto simp: execute_mc_command_eq init_rcon_eq Let_def split: sum.splits if_splits)

section \<open>The formatting of the response\<close>

lemma has_code_Cons: "has_code (c # xs) = ((c = section_sign \<and> xs \<noteq> []) \<or> has_code xs)"
  by (cases xs) auto

lemma remove_codes_clean: "\<not> has_code (remove_codes raw)"
  by (induction raw rule: remove_codes.induct) (auto simp: has_code_Cons)

text \<open>
  C9. For every raw response, the text that \<^verbatim>\<open>_execute_mc_command\<close> returns contains no
  formatting control sequence. The method builds every client with the \<open>REMOVE\<close>
  formatting method and returns what the client's \<^verbatim>\<open>command\<close> returns, unchanged; so
  whenever it returns a text, the text is free of control sequences, and when the login
  is accepted and the server answers \<open>raw\<close> it returns \<open>raw\<close> with the sequences removed.
\<close>

theorem execute_mc_command_strips_codes:
  "(fst (execute_mc_command cfg w command s) = Inr response \<longrightarrow> \<not> has_code response)
   \<and> (login_result w = Inr True \<longrightarrow> command_result w = Inr raw \<longrightarrow>
        fst (execute_mc_command cfg w command s) = Inr (remove_codes raw))"
  by (auto simp: execute_mc_command_eq init_rcon_eq Let_def remove_codes_clean
      split: sum.splits if_splits)

text \<open>A response with a colour code and a reset code in it.\<close>

theorem execute_mc_command_strips_codes_witness:
  "has_code (section_sign # ''aHello '' @ section_sign # ''rworld'')
   \<and> fst (execute_mc_command default_config
          (empty_server\<lparr>command_result := Inr (section_sign # ''aHello '' @ section_sign # ''rworld'')\<rparr>)
          ''list'' held) = Inr ''Hello world''
   \<and> \<not> has_code ''Hello world''"
  using execute_mc_command_strips_codes [of default_config
          "empty_server\<lparr>command_result := Inr (section_sign # ''aHello '' @ section_sign # ''rworld'')\<rparr>"
          "''list''" held "''Hello world''"
          "section_sign # ''aHello '' @ section_sign # ''rworld''"]
  by (simp add: empty_server_def section_sign_def)

section \<open>The supervisor: start and stop\<close>

lemma start_absent:
  "server_proc s = None \<Longrightarrow> spawn_result w = Inr p \<Longrightarrow>
   start cfg w s = (Inr (), s\<lparr>server_proc := Some p,
      effects := effects s @ [Spawn (SERVER_EXEC_COMMAND cfg) (SERVER_WORKING_DIRECTORY cfg),
                              Send ''Server starting up...'']\<rparr>)"
  by (simp add: start_def online_def create_subprocess_shell_def stmt_defs Let_def)

lemma start_absent_fails:
  "server_proc s = None \<Longrightarrow> spawn_result w = Inl e \<Longrightarrow>
   start cfg w s = (Inl e, s\<lparr>effects := effects s @
      [Spawn (SERVER_EXEC_COMMAND cfg) (SERVER_WORKING_DIRECTORY cfg)]\<rparr>)"
  by (simp add: start_def online_def create_subprocess_shell_def stmt_defs Let_def)

lemma start_held:
  "server_proc s = Some q \<Longrightarrow>
   start cfg w s = (Inr (), s\<lparr>effects := effects s @ [Send ''Server already started!'']\<rparr>)"
  by (simp add: start_def online_def stmt_defs)

lemma stop_absent:
  "server_proc s = None \<Longrightarrow>
   stop cfg w s = (Inr (), s\<lparr>effects := effects s @ [Send ''Server is not online'']\<rparr>)"
  by (simp add: stop_def online_def stmt_defs)

text \<open>
  \<^verbatim>\<open>_stop\<close> with a handle held, by cases of what the RCON command and the kill do.
  The handle is cleared on one path only: the command returned and \<^verbatim>\<open>kill()\<close> raised
  \<open>ProcessLookupError\<close>.
\<close>

lemma stop_held_eq:
  assumes h: "server_proc s = Some p"
  shows "stop cfg w s =
     (case execute_mc_command cfg w ''stop''
             (s\<lparr>effects := effects s @ [Send ''Stopping server...'']\<rparr>) of
        (Inl e, s1) \<Rightarrow> (Inl e, s1)
      | (Inr r, s1) \<Rightarrow>
          (let s2 = s1\<lparr>effects := effects s1 @ [Sleep (SERVER_STOP_TIMEOUT cfg), Kill p]\<rparr>
           in case kill_raises w of
                None \<Rightarrow> (Inl TypeError, s2)
              | Some e \<Rightarrow>
                  (if e = ProcessLookupError
                   then (Inr (), s2\<lparr>server_proc := None,
                                    effects := effects s2 @ [Send ''Server stopped'']\<rparr>)
                   else (Inl e, s2))))"
proof -
  let ?s0 = "s\<lparr>effects := effects s @ [Send ''Stopping server...'']\<rparr>"
  obtain r s1 where ex: "execute_mc_command cfg w ''stop'' ?s0 = (r, s1)"
    by (cases "execute_mc_command cfg w ''stop'' ?s0")
  have sp: "server_proc s1 = Some p"
    using execute_mc_command_server_proc [of cfg w "''stop''" ?s0] ex h by simp
  show ?thesis
    using h ex sp
    by (cases r)
       (simp_all add: stop_def online_def stmt_defs proc_kill_def Let_def split: option.splits)
qed

lemma stop_returns_absent:
  assumes "stop cfg w s = (Inr (), s')"
  shows "server_proc s' = None"
proof (cases "server_proc s")
  case None
  then show ?thesis using assms by (auto simp: stop_absent)
next
  case (Some p)
  then show ?thesis using assms
    by (auto simp: stop_held_eq Let_def split: prod.splits sum.splits option.splits if_splits)
qed

lemma start_server_proc_cases:
  "server_proc (snd (start cfg w s)) = server_proc s
   \<or> (\<exists>p. spawn_result w = Inr p \<and> server_proc (snd (start cfg w s)) = Some p)"
proof (cases "server_proc s")
  case None
  then show ?thesis
    by (cases "spawn_result w") (simp_all add: start_absent start_absent_fails)
next
  case (Some q)
  then show ?thesis by (simp add: start_held)
qed

lemma stop_server_proc_cases:
  "server_proc (snd (stop cfg w s)) = server_proc s \<or> server_proc (snd (stop cfg w s)) = None"
proof (cases "server_proc s")
  case None
  then show ?thesis by (simp add: stop_absent)
next
  case (Some p)
  have "server_proc (snd (execute_mc_command cfg w ''stop''
          (s\<lparr>effects := effects s @ [Send ''Stopping server...'']\<rparr>))) = Some p"
    using Some by (simp add: execute_mc_command_server_proc)
  then show ?thesis using Some
    by (auto simp: stop_held_eq Let_def split: prod.splits sum.splits option.splits)
qed

text \<open>
  Over a run of calls the handle is the one the run began with, or none, or one that a
  spawn of a start call of the run returned.
\<close>

lemma run_server_proc:
  "server_proc (run cfg cs s) = server_proc s \<or> server_proc (run cfg cs s) = None
   \<or> (\<exists>w r. (Start, w) \<in> set cs \<and> spawn_result w = Inr r
            \<and> server_proc (run cfg cs s) = Some r)"
proof (induction cs arbitrary: s)
  case Nil
  then show ?case by simp
next
  case (Cons c cs)
  obtain k w where c: "c = (k, w)" by (cases c)
  show ?case
  proof (cases k)
    case Start
    let ?s = "snd (start cfg w s)"
    have run: "run cfg (c # cs) s = run cfg cs ?s" using c Start by simp
    have mem: "(Start, w) \<in> set (c # cs)" using c Start by simp
    consider "server_proc (run cfg cs ?s) = server_proc ?s"
      | "server_proc (run cfg cs ?s) = None"
      | w' r where "(Start, w') \<in> set cs" "spawn_result w' = Inr r"
          "server_proc (run cfg cs ?s) = Some r"
      using Cons.IH [of ?s] by (elim disjE exE conjE)
    then show ?thesis
    proof cases
      case 1
      consider "server_proc ?s = server_proc s"
        | r where "spawn_result w = Inr r" "server_proc ?s = Some r"
        using start_server_proc_cases [of cfg w s] by (elim disjE exE conjE)
      then show ?thesis
      proof cases
        case 1
        then show ?thesis using \<open>server_proc (run cfg cs ?s) = server_proc ?s\<close> run by simp
      next
        case 2
        then have "(Start, w) \<in> set (c # cs) \<and> spawn_result w = Inr r
            \<and> server_proc (run cfg (c # cs) s) = Some r"
          using \<open>server_proc (run cfg cs ?s) = server_proc ?s\<close> run mem by simp
        then show ?thesis by blast
      qed
    next
      case 2
      then show ?thesis using run by simp
    next
      case 3
      then have "(Start, w') \<in> set (c # cs) \<and> spawn_result w' = Inr r
          \<and> server_proc (run cfg (c # cs) s) = Some r"
        using run by simp
      then show ?thesis by blast
    qed
  next
    case Stop
    let ?s = "snd (stop cfg w s)"
    have run: "run cfg (c # cs) s = run cfg cs ?s" using c Stop by simp
    consider "server_proc (run cfg cs ?s) = server_proc ?s"
      | "server_proc (run cfg cs ?s) = None"
      | w' r where "(Start, w') \<in> set cs" "spawn_result w' = Inr r"
          "server_proc (run cfg cs ?s) = Some r"
      using Cons.IH [of ?s] by (elim disjE exE conjE)
    then show ?thesis
    proof cases
      case 1
      then show ?thesis using stop_server_proc_cases [of cfg w s] run by auto
    next
      case 2
      then show ?thesis using run by simp
    next
      case 3
      then have "(Start, w') \<in> set (c # cs) \<and> spawn_result w' = Inr r
          \<and> server_proc (run cfg (c # cs) s) = Some r"
        using run by simp
      then show ?thesis by blast
    qed
  qed
qed

text \<open>
  The transitions that hold for every state, configuration and world. \<^verbatim>\<open>_start\<close> from
  Absent (\<^verbatim>\<open>server_proc\<close> is \<^verbatim>\<open>None\<close>) spawns the launch command in the working
  directory and, the spawn having returned a process, holds its handle; \<^verbatim>\<open>_start\<close> while
  Held changes nothing and answers that the server is already started, without a spawn;
  \<^verbatim>\<open>_stop\<close> while Absent changes nothing and answers that the server is not online,
  with no other effect; after a \<^verbatim>\<open>_stop\<close> that returns the state is Absent and a
  \<^verbatim>\<open>_start\<close> spawns again; and after every run of start and stop calls from the
  initial state the handle is absent or is one that a spawn of the run returned.
\<close>

lemma supervisor_transitions:
  "(server_proc s1 = None \<longrightarrow> spawn_result w1 = Inr p \<longrightarrow>
      start cfg w1 s1 = (Inr (), s1\<lparr>server_proc := Some p,
        effects := effects s1 @ [Spawn (SERVER_EXEC_COMMAND cfg) (SERVER_WORKING_DIRECTORY cfg),
                                 Send ''Server starting up...'']\<rparr>))
   \<and> (server_proc s2 = Some q \<longrightarrow>
      start cfg w2 s2 = (Inr (), s2\<lparr>effects := effects s2 @ [Send ''Server already started!'']\<rparr>))
   \<and> (server_proc s3 = None \<longrightarrow>
      stop cfg w3 s3 = (Inr (), s3\<lparr>effects := effects s3 @ [Send ''Server is not online'']\<rparr>))
   \<and> (stop cfg w4 s4 = (Inr (), s5) \<longrightarrow> spawn_result w5 = Inr p' \<longrightarrow>
      server_proc s5 = None \<and> fst (start cfg w5 s5) = Inr ()
      \<and> server_proc (snd (start cfg w5 s5)) = Some p')
   \<and> (server_proc (run cfg cs (init cfg)) = None
      \<or> (\<exists>w r. (Start, w) \<in> set cs \<and> spawn_result w = Inr r
               \<and> server_proc (run cfg cs (init cfg)) = Some r))"
proof -
  have a: "server_proc s1 = None \<longrightarrow> spawn_result w1 = Inr p \<longrightarrow>
      start cfg w1 s1 = (Inr (), s1\<lparr>server_proc := Some p,
        effects := effects s1 @ [Spawn (SERVER_EXEC_COMMAND cfg) (SERVER_WORKING_DIRECTORY cfg),
                                 Send ''Server starting up...'']\<rparr>)"
    by (simp add: start_absent)
  have b: "server_proc s2 = Some q \<longrightarrow>
      start cfg w2 s2 = (Inr (), s2\<lparr>effects := effects s2 @ [Send ''Server already started!'']\<rparr>)"
    by (simp add: start_held)
  have c: "server_proc s3 = None \<longrightarrow>
      stop cfg w3 s3 = (Inr (), s3\<lparr>effects := effects s3 @ [Send ''Server is not online'']\<rparr>)"
    by (simp add: stop_absent)
  have d: "stop cfg w4 s4 = (Inr (), s5) \<longrightarrow> spawn_result w5 = Inr p' \<longrightarrow>
      server_proc s5 = None \<and> fst (start cfg w5 s5) = Inr ()
      \<and> server_proc (snd (start cfg w5 s5)) = Some p'"
    using stop_returns_absent [of cfg w4 s4 s5] by (auto simp: start_absent)
  have e: "server_proc (run cfg cs (init cfg)) = None
      \<or> (\<exists>w r. (Start, w) \<in> set cs \<and> spawn_result w = Inr r
               \<and> server_proc (run cfg cs (init cfg)) = Some r)"
  proof -
    have "server_proc (init cfg) = None" by (simp add: init_def)
    then show ?thesis using run_server_proc [of cfg cs "init cfg"] by metis
  qed
  show ?thesis using a b c d e by blast
qed

text \<open>Whatever the RCON command raises leaves \<^verbatim>\<open>_stop\<close> at once, the handle still held.\<close>

lemma stop_raises_what_rcon_raises:
  assumes "server_proc s = Some p"
    and "execute_mc_command cfg w ''stop''
           (s\<lparr>effects := effects s @ [Send ''Stopping server...'']\<rparr>) = (Inl e, s1)"
  shows "stop cfg w s = (Inl e, s1) \<and> server_proc s1 = Some p"
  using assms execute_mc_command_server_proc
          [of cfg w "''stop''" "s\<lparr>effects := effects s @ [Send ''Stopping server...'']\<rparr>"]
  by (simp add: stop_held_eq)

text \<open>
  C1. The claim: when the graceful RCON command fails, the stop still goes on to the wait
  and the terminate attempt, and ends with no handle held. \<^verbatim>\<open>_stop\<close> awaits
  \<^verbatim>\<open>_execute_mc_command("stop")\<close> outside any \<^verbatim>\<open>try\<close>, although \<^verbatim>\<open>_exec\<close> guards the
  same call: with the RCON port refusing the connection, \<open>RCONFailedError\<close> leaves
  \<^verbatim>\<open>_stop\<close> before the sleep and the kill, and the handle stays held.
\<close>

theorem stop_aborts_when_rcon_refused:
  "stop default_config (empty_server\<lparr>login_result := Inl ConnectionRefusedError\<rparr>) held
     = (Inl (RCONFailedError ''Server refused rcon, is rcon enabled?''),
        held\<lparr>rcon := Some (RCONClient ''127.0.0.1'' ''25575'' REMOVE),
             effects := [Send ''Stopping server...'', RconLogin ''127.0.0.1'' ''25575'' []]\<rparr>)
   \<and> online (snd (stop default_config
                    (empty_server\<lparr>login_result := Inl ConnectionRefusedError\<rparr>) held))"
  by (simp add: cog_defs sample_defs stmt_defs lib_defs)

text \<open>
  With the RCON command delivered, \<^verbatim>\<open>_stop\<close> sleeps for the configured timeout and then
  calls \<^verbatim>\<open>kill()\<close> on the handle, once, whether or not the process has exited; when
  the process has exited, so that \<^verbatim>\<open>kill()\<close> raises \<open>ProcessLookupError\<close>, the error
  is swallowed, \<^verbatim>\<open>_stop\<close> returns and no handle is held.
\<close>

lemma stop_kills_once_after_sleep:
  "server_proc s = Some p \<longrightarrow> login_result w = Inr True \<longrightarrow> command_result w = Inr raw \<longrightarrow>
     (\<exists>rest. effects (snd (stop cfg w s)) =
        effects s @ [Send ''Stopping server...'',
          RconLogin (SERVER_IP cfg) (SERVER_RCON_PORT cfg) (SERVER_RCON_PASSWORD cfg),
          RconCommand ''stop'', RconStop, Sleep (SERVER_STOP_TIMEOUT cfg), Kill p] @ rest
        \<and> (\<forall>q. Kill q \<notin> set rest))
     \<and> (kill_raises w = Some ProcessLookupError \<longrightarrow>
          fst (stop cfg w s) = Inr () \<and> server_proc (snd (stop cfg w s)) = None)"
proof (intro impI)
  assume h: "server_proc s = Some p" and l: "login_result w = Inr True"
    and c: "command_result w = Inr raw"
  let ?new = "[Send ''Stopping server...'',
          RconLogin (SERVER_IP cfg) (SERVER_RCON_PORT cfg) (SERVER_RCON_PASSWORD cfg),
          RconCommand ''stop'', RconStop, Sleep (SERVER_STOP_TIMEOUT cfg), Kill p]"
  let ?s2 = "s\<lparr>rcon := None, effects := effects s @ ?new\<rparr>"
  have st: "stop cfg w s =
      (case kill_raises w of
         None \<Rightarrow> (Inl TypeError, ?s2)
       | Some e \<Rightarrow>
           (if e = ProcessLookupError
            then (Inr (), ?s2\<lparr>server_proc := None,
                             effects := effects s @ ?new @ [Send ''Server stopped'']\<rparr>)
            else (Inl e, ?s2)))"
    using h l c
    by (simp add: stop_held_eq execute_mc_command_eq init_rcon_eq Let_def split: option.splits)
  have once: "\<exists>rest. effects (snd (stop cfg w s)) = effects s @ ?new @ rest
      \<and> (\<forall>q. Kill q \<notin> set rest)"
  proof (cases "kill_raises w = Some ProcessLookupError")
    case True
    then have e: "effects (snd (stop cfg w s)) = effects s @ ?new @ [Send ''Server stopped'']"
      by (simp add: st)
    show ?thesis by (rule exI [where x = "[Send ''Server stopped'']"]) (simp add: e)
  next
    case False
    then have e: "effects (snd (stop cfg w s)) = effects s @ ?new"
      by (simp add: st split: option.splits)
    show ?thesis by (rule exI [where x = "[]"]) (simp add: e)
  qed
  have exited: "kill_raises w = Some ProcessLookupError \<longrightarrow>
      fst (stop cfg w s) = Inr () \<and> server_proc (snd (stop cfg w s)) = None"
    by (simp add: st)
  show "(\<exists>rest. effects (snd (stop cfg w s)) = effects s @ ?new @ rest
          \<and> (\<forall>q. Kill q \<notin> set rest))
     \<and> (kill_raises w = Some ProcessLookupError \<longrightarrow>
          fst (stop cfg w s) = Inr () \<and> server_proc (snd (stop cfg w s)) = None)"
    using once exited by (rule conjI)
qed

text \<open>
  \<^verbatim>\<open>_stop\<close> with the RCON command delivered and the process still running:
  \<^verbatim>\<open>kill()\<close> returns \<^verbatim>\<open>None\<close>, the \<^verbatim>\<open>await\<close> applied to it raises \<open>TypeError\<close>,
  the clause for \<open>ProcessLookupError\<close> does not catch it, and the assignment that
  clears the handle is not reached.
\<close>

lemma stop_running_process_raises_general:
  "server_proc s = Some p \<Longrightarrow> login_result w = Inr True \<Longrightarrow> command_result w = Inr raw \<Longrightarrow>
   kill_raises w = None \<Longrightarrow>
   stop cfg w s = (Inl TypeError,
      s\<lparr>rcon := None, effects := effects s @ [Send ''Stopping server...'',
          RconLogin (SERVER_IP cfg) (SERVER_RCON_PORT cfg) (SERVER_RCON_PASSWORD cfg),
          RconCommand ''stop'', RconStop, Sleep (SERVER_STOP_TIMEOUT cfg), Kill p]\<rparr>)"
  by (simp add: stop_held_eq execute_mc_command_eq init_rcon_eq Let_def)

text \<open>
  C2. The claim: a stop with a handle held ends with no handle held whether the process
  exits within the timeout or has to be killed after it. When the process has exited
  the code does so: the attempt to kill raises \<open>ProcessLookupError\<close>, which is
  swallowed, and the handle is cleared. When the process is still running after the
  timeout it does not: \<^verbatim>\<open>kill()\<close> is called once, after the sleep, but
  \<^verbatim>\<open>await self.server_proc.kill()\<close> awaits the \<^verbatim>\<open>None\<close> that \<^verbatim>\<open>kill()\<close> returns
  and raises \<open>TypeError\<close>; \<^verbatim>\<open>_stop\<close> ends by that exception, nothing more is sent,
  and the handle stays held.
\<close>

theorem stop_running_process_keeps_handle:
  "stop default_config (empty_server\<lparr>kill_raises := None\<rparr>) held
     = (Inl TypeError,
        held\<lparr>effects := [Send ''Stopping server...'', RconLogin ''127.0.0.1'' ''25575'' [],
                 RconCommand ''stop'', RconStop, Sleep 5, Kill 1]\<rparr>)
   \<and> online (snd (stop default_config (empty_server\<lparr>kill_raises := None\<rparr>) held))"
  by (simp add: cog_defs sample_defs stmt_defs lib_defs)

text \<open>
  C7. The claim: the supervisor moves between Absent and Held by start and stop, and
  can be started again after a stop. The transitions of \<^verbatim>\<open>_start\<close>, and of \<^verbatim>\<open>_stop\<close>
  while Absent, are as claimed (lemma \<open>supervisor_transitions\<close>). The stop of a server
  that is still running when it is killed is not: the process is killed, \<^verbatim>\<open>_stop\<close>
  ends by the \<open>TypeError\<close> of the \<^verbatim>\<open>await\<close>, the handle stays held, and the next
  start spawns nothing and answers that the server is already started.
\<close>

theorem restart_blocked_after_stop_of_running_server:
  "start default_config empty_server absent
     = (Inr (), absent\<lparr>server_proc := Some 1,
          effects := [Spawn ''./start.sh'' ''./'', Send ''Server starting up...'']\<rparr>)
   \<and> stop default_config (empty_server\<lparr>kill_raises := None\<rparr>)
        (absent\<lparr>server_proc := Some 1,
          effects := [Spawn ''./start.sh'' ''./'', Send ''Server starting up...'']\<rparr>)
     = (Inl TypeError, absent\<lparr>server_proc := Some 1,
          effects := [Spawn ''./start.sh'' ''./'', Send ''Server starting up...'',
            Send ''Stopping server...'', RconLogin ''127.0.0.1'' ''25575'' [],
            RconCommand ''stop'', RconStop, Sleep 5, Kill 1]\<rparr>)
   \<and> start default_config empty_server
        (absent\<lparr>server_proc := Some 1,
          effects := [Spawn ''./start.sh'' ''./'', Send ''Server starting up...'',
            Send ''Stopping server...'', RconLogin ''127.0.0.1'' ''25575'' [],
            RconCommand ''stop'', RconStop, Sleep 5, Kill 1]\<rparr>)
     = (Inr (), absent\<lparr>server_proc := Some 1,
          effects := [Spawn ''./start.sh'' ''./'', Send ''Server starting up...'',
            Send ''Stopping server...'', RconLogin ''127.0.0.1'' ''25575'' [],
            RconCommand ''stop'', RconStop, Sleep 5, Kill 1,
            Send ''Server already started!'']\<rparr>)
   \<and> online (run default_config
        [(Start, empty_server), (Stop, empty_server\<lparr>kill_raises := None\<rparr>), (Start, empty_server)]
        (init default_config))"
  by (simp add: cog_defs sample_defs stmt_defs lib_defs)

section \<open>Status and player list\<close>

lemma players_absent:
  "server_proc s = None \<Longrightarrow>
   players cfg w s = (Inr (), s\<lparr>effects := effects s @ [Send ''Server is not online'']\<rparr>)"
  by (simp add: players_def online_def stmt_defs)

lemma info_shape:
  "status_result w' = status_result w \<Longrightarrow>
   info cfg w' s = (fst (info cfg w (init cfg)),
      s\<lparr>effects := effects s @ StatusRequest (query s) # tl (effects (snd (info cfg w (init cfg))))\<rparr>)"
  by (simp add: info_def Let_def stmt_defs async_status_def py_or_def init_def split: sum.splits)

lemma players_held_shape:
  "query_result w' = query_result w \<Longrightarrow> server_proc s \<noteq> None \<Longrightarrow>
   players cfg w' s = (fst (players cfg w held),
      s\<lparr>effects := effects s @ QueryRequest (query s) # tl (effects (snd (players cfg w held)))\<rparr>)"
  by (simp add: players_def online_def Let_def stmt_defs async_query_def py_or_def held_def init_def
      split: sum.splits)

text \<open>
  C5, as amended. \<^verbatim>\<open>_info\<close> does the same whatever the handle is: in every state it
  sends its status request, and its result and what it sends after the request are
  fixed by the configuration and the reply to the request. \<^verbatim>\<open>_players\<close> asks
  \<^verbatim>\<open>_online()\<close> first: with no handle held it sends no query and answers that the
  server is not online; with a handle held, whichever it is, it sends the query, and its
  result and what it sends after the query are fixed by the configuration and the reply.
\<close>

theorem query_gated_on_handle_only_for_players:
  "(\<exists>r out. \<forall>w' s. status_result w' = status_result w \<longrightarrow>
        info cfg w' s = (r, s\<lparr>effects := effects s @ StatusRequest (query s) # out\<rparr>))
   \<and> (\<forall>s. server_proc s = None \<longrightarrow>
        players cfg w s = (Inr (), s\<lparr>effects := effects s @ [Send ''Server is not online'']\<rparr>))
   \<and> (\<exists>r out. \<forall>w' s. query_result w' = query_result w \<longrightarrow> server_proc s \<noteq> None \<longrightarrow>
        players cfg w' s = (r, s\<lparr>effects := effects s @ QueryRequest (query s) # out\<rparr>))"
proof (intro conjI)
  show "\<exists>r out. \<forall>w' s. status_result w' = status_result w \<longrightarrow>
        info cfg w' s = (r, s\<lparr>effects := effects s @ StatusRequest (query s) # out\<rparr>)"
    by (intro exI allI impI) (rule info_shape)
  show "\<forall>s. server_proc s = None \<longrightarrow>
        players cfg w s = (Inr (), s\<lparr>effects := effects s @ [Send ''Server is not online'']\<rparr>)"
    by (simp add: players_absent)
  show "\<exists>r out. \<forall>w' s. query_result w' = query_result w \<longrightarrow> server_proc s \<noteq> None \<longrightarrow>
        players cfg w' s = (r, s\<lparr>effects := effects s @ QueryRequest (query s) # out\<rparr>)"
    by (intro exI allI impI) (rule players_held_shape)
qed

text \<open>
  At the default configuration, against a running, empty server: the status with and
  without a handle, the player list without a handle, and the player list with two
  different handles.
\<close>

theorem query_gated_on_handle_only_for_players_witness:
  "(\<exists>r out.
      info default_config empty_server absent
        = (r, absent\<lparr>effects := StatusRequest ''127.0.0.1:25565'' # out\<rparr>)
      \<and> info default_config empty_server held
        = (r, held\<lparr>effects := StatusRequest ''127.0.0.1:25565'' # out\<rparr>))
   \<and> players default_config empty_server absent
     = (Inr (), absent\<lparr>effects := [Send ''Server is not online'']\<rparr>)
   \<and> (\<exists>r out.
      players default_config empty_server held
        = (r, held\<lparr>effects := QueryRequest ''127.0.0.1:25565'' # out\<rparr>)
      \<and> players default_config (empty_server\<lparr>spawn_result := Inr 2\<rparr>) (held\<lparr>server_proc := Some 2\<rparr>)
        = (r, held\<lparr>server_proc := Some 2, effects := QueryRequest ''127.0.0.1:25565'' # out\<rparr>))"
proof -
  have h: "server_proc absent = None" "server_proc held \<noteq> None" "effects absent = []"
    "effects held = []" "query absent = ''127.0.0.1:25565''" "query held = ''127.0.0.1:25565''"
    "server_proc (held\<lparr>server_proc := Some 2\<rparr>) \<noteq> None"
    "query_result (empty_server\<lparr>spawn_result := Inr 2\<rparr>) = query_result empty_server"
    by (simp_all add: sample_defs init_def)
  note t = query_gated_on_handle_only_for_players [of empty_server default_config]
  from t obtain r out where i: "\<forall>w' s. status_result w' = status_result empty_server \<longrightarrow>
        info default_config w' s = (r, s\<lparr>effects := effects s @ StatusRequest (query s) # out\<rparr>)"
    by blast
  from t obtain r' out' where q: "\<forall>w' s. query_result w' = query_result empty_server
        \<longrightarrow> server_proc s \<noteq> None \<longrightarrow>
        players default_config w' s = (r', s\<lparr>effects := effects s @ QueryRequest (query s) # out'\<rparr>)"
    by blast
  from t have a: "players default_config empty_server absent
     = (Inr (), absent\<lparr>effects := effects absent @ [Send ''Server is not online'']\<rparr>)"
    using h(1) by blast
  have 1: "info default_config empty_server absent
        = (r, absent\<lparr>effects := StatusRequest ''127.0.0.1:25565'' # out\<rparr>)
      \<and> info default_config empty_server held
        = (r, held\<lparr>effects := StatusRequest ''127.0.0.1:25565'' # out\<rparr>)"
    using i [rule_format, of empty_server absent] i [rule_format, of empty_server held] h by simp
  have 2: "players default_config empty_server held
        = (r', held\<lparr>effects := QueryRequest ''127.0.0.1:25565'' # out'\<rparr>)
      \<and> players default_config (empty_server\<lparr>spawn_result := Inr 2\<rparr>) (held\<lparr>server_proc := Some 2\<rparr>)
        = (r', held\<lparr>server_proc := Some 2, effects := QueryRequest ''127.0.0.1:25565'' # out'\<rparr>)"
    using q [rule_format, of empty_server held]
      q [rule_format, of "empty_server\<lparr>spawn_result := Inr 2\<rparr>" "held\<lparr>server_proc := Some 2\<rparr>"] h
    by simp
  have e1: "\<exists>r out.
      info default_config empty_server absent
        = (r, absent\<lparr>effects := StatusRequest ''127.0.0.1:25565'' # out\<rparr>)
      \<and> info default_config empty_server held
        = (r, held\<lparr>effects := StatusRequest ''127.0.0.1:25565'' # out\<rparr>)"
    by (rule exI [where x = r], rule exI [where x = out]) (rule 1)
  have e2: "\<exists>r out.
      players default_config empty_server held
        = (r, held\<lparr>effects := QueryRequest ''127.0.0.1:25565'' # out\<rparr>)
      \<and> players default_config (empty_server\<lparr>spawn_result := Inr 2\<rparr>) (held\<lparr>server_proc := Some 2\<rparr>)
        = (r, held\<lparr>server_proc := Some 2, effects := QueryRequest ''127.0.0.1:25565'' # out\<rparr>)"
    by (rule exI [where x = r'], rule exI [where x = out']) (rule 2)
  have a': "players default_config empty_server absent
     = (Inr (), absent\<lparr>effects := [Send ''Server is not online'']\<rparr>)"
    using a h(3) by simp
  show ?thesis using e1 a' e2 by (intro conjI)
qed

text \<open>
  C5 as stated fails: against the same reachable server, two cogs that differ in the
  handle alone; without the handle no query is sent, with it the query is sent.
\<close>

theorem players_differs_with_handle:
  "query absent = query held \<and> rcon absent = rcon held \<and> effects absent = effects held
   \<and> fst (players default_config empty_server absent) = Inr ()
   \<and> effects (snd (players default_config empty_server absent)) = [Send ''Server is not online'']
   \<and> fst (players default_config empty_server held) = Inr ()
   \<and> effects (snd (players default_config empty_server held))
       = [QueryRequest ''127.0.0.1:25565'', Send ''No players online'']"
  by (simp add: cog_defs sample_defs stmt_defs lib_defs)

text \<open>
  What the two handlers do with a refused connection: both answer with a message.
\<close>

lemma info_connection_refused:
  "status_result w = Inl e \<Longrightarrow> isinstance e ConnectionError_cls \<Longrightarrow>
   fst (info cfg w s) = Inr ()"
  by (simp add: info_def Let_def stmt_defs async_status_def py_or_def)

lemma players_connection_refused:
  "server_proc s = Some p \<Longrightarrow> query_result w = Inl e \<Longrightarrow> isinstance e ConnectionError_cls \<Longrightarrow>
   players cfg w s
     = (Inr (), s\<lparr>effects := effects s @ [QueryRequest (query s),
                    Send ''Server refused query, is query enabled?'']\<rparr>)"
  by (simp add: players_def online_def Let_def stmt_defs async_query_def py_or_def)

text \<open>
  C6. The claim: a status or query call whose host cannot be resolved, refuses the
  connection or times out ends as the typed, ordinary offline outcome. A refused
  connection does. A failed name resolution and a timeout do not: the clauses
  \<^verbatim>\<open>except ConnectionError or gaierror\<close> and
  \<^verbatim>\<open>except ConnectionError or TimeoutError or gaierror\<close> catch \<open>ConnectionError\<close> only,
  so \<open>gaierror\<close> and \<open>TimeoutError\<close> leave \<^verbatim>\<open>_info\<close> and \<^verbatim>\<open>_players\<close> as they are
  and nothing is sent to the caller. (How long a call takes is outside this model.)
\<close>

theorem query_failures_escape:
  "info default_config (empty_server\<lparr>status_result := Inl gaierror\<rparr>) held
     = (Inl gaierror, held\<lparr>effects := [StatusRequest ''127.0.0.1:25565'']\<rparr>)
   \<and> info default_config (empty_server\<lparr>status_result := Inl TimeoutError\<rparr>) held
     = (Inl TimeoutError, held\<lparr>effects := [StatusRequest ''127.0.0.1:25565'']\<rparr>)
   \<and> players default_config (empty_server\<lparr>query_result := Inl gaierror\<rparr>) held
     = (Inl gaierror, held\<lparr>effects := [QueryRequest ''127.0.0.1:25565'']\<rparr>)
   \<and> players default_config (empty_server\<lparr>query_result := Inl TimeoutError\<rparr>) held
     = (Inl TimeoutError, held\<lparr>effects := [QueryRequest ''127.0.0.1:25565'']\<rparr>)"
  by (simp add: cog_defs sample_defs stmt_defs lib_defs)

text \<open>
  C8, as amended. While a handle is held, \<^verbatim>\<open>_players\<close> against a server that answers
  the query with an empty list of names returns normally: it sends the query and answers
  that no players are online.
\<close>

theorem players_nobody_online:
  "server_proc s = Some p \<Longrightarrow> query_result w = Inr q \<Longrightarrow> query_names q = [] \<Longrightarrow>
   players cfg w s
     = (Inr (), s\<lparr>effects := effects s @ [QueryRequest (query s), Send ''No players online'']\<rparr>)"
  by (simp add: players_def online_def Let_def stmt_defs async_query_def)

text \<open>The running, empty server, queried while the handle of process 1 is held.\<close>

theorem players_nobody_online_witness:
  "players default_config empty_server held
     = (Inr (), held\<lparr>effects := [QueryRequest ''127.0.0.1:25565'', Send ''No players online'']\<rparr>)"
proof -
  have h: "server_proc held = Some 1"
    "query_result empty_server = Inr \<lparr>query_online = 0, query_max = 20, query_names = []\<rparr>"
    "query_names \<lparr>query_online = 0, query_max = 20, query_names = []\<rparr> = []"
    by (simp_all add: sample_defs init_def)
  show ?thesis
    using players_nobody_online [OF h, of default_config]
    by (simp add: sample_defs init_def)
qed

text \<open>
  C8 as stated fails: the server is reachable and empty, no handle is held, and the
  answer is that the server is not online; no query is sent.
\<close>

theorem players_absent_reports_not_online:
  "query_result empty_server = Inr \<lparr>query_online = 0, query_max = 20, query_names = []\<rparr>
   \<and> players default_config empty_server absent
       = (Inr (), absent\<lparr>effects := [Send ''Server is not online'']\<rparr>)
   \<and> ''Server is not online'' \<noteq> ''No players online''"
  by (simp add: cog_defs sample_defs stmt_defs lib_defs)

end
